theory Spec2Isabelle
  imports Main
begin

section \<open>JavaScript values\<close>

text \<open>
  The parameter objects of the repository are loosely typed: \<^verbatim>\<open>assignProps\<close> tests the
  run-time type of \<^verbatim>\<open>visibility\<close>, \<^verbatim>\<open>users\<close>, \<^verbatim>\<open>password\<close> and \<^verbatim>\<open>readonly\<close>, and
  \<^verbatim>\<open>isValidToken\<close> returns whatever the \<^verbatim>\<open>&&\<close> operator yields. Such fields are
  values of \<open>jsval\<close>. Numbers are restricted to integers. \<open>JBuiltin\<close> stands for a
  function or an object of the runtime itself, by name: the values a plain object
  inherits from \<^verbatim>\<open>Object.prototype\<close>.
\<close>

datatype jsval =
    JUndefined
  | JNull
  | JBool bool
  | JNum int
  | JStr string
  | JArr "jsval list"
  | JObj "(string \<times> jsval) list"
  | JBuiltin string

text \<open>lodash's type predicates \<^verbatim>\<open>ld.isString\<close>, \<^verbatim>\<open>ld.isBoolean\<close>, \<^verbatim>\<open>ld.isArray\<close>,
  \<^verbatim>\<open>ld.isUndefined\<close>.\<close>

fun isString :: "jsval \<Rightarrow> bool" where
  "isString (JStr s) = True"
| "isString v = False"

fun isBoolean :: "jsval \<Rightarrow> bool" where
  "isBoolean (JBool b) = True"
| "isBoolean v = False"

fun isArray :: "jsval \<Rightarrow> bool" where
  "isArray (JArr vs) = True"
| "isArray v = False"

fun isUndefined :: "jsval \<Rightarrow> bool" where
  "isUndefined JUndefined = True"
| "isUndefined v = False"

text \<open>JavaScript's truthiness (ToBoolean): \<^verbatim>\<open>undefined\<close>, \<^verbatim>\<open>null\<close>, \<^verbatim>\<open>false\<close>, \<^verbatim>\<open>0\<close>
  and the empty string are falsy, every array, object and function is truthy.\<close>

fun truthy :: "jsval \<Rightarrow> bool" where
  "truthy JUndefined = False"
| "truthy JNull = False"
| "truthy (JBool b) = b"
| "truthy (JNum n) = (n \<noteq> 0)"
| "truthy (JStr s) = (s \<noteq> [])"
| "truthy (JArr vs) = True"
| "truthy (JObj fs) = True"
| "truthy (JBuiltin n) = True"

section \<open>Errors\<close>

text \<open>
  \<open>Error\<close> and \<open>TypeError\<close> are the JavaScript errors the sources construct, with their
  messages. \<open>NotFound\<close> (with the id looked up) is the failure of the key-value store's
  \<^verbatim>\<open>get\<close> on an absent key and \<open>ValidationError\<close> (with the field name) the failure
  of the required-field validation; both helpers are outside the sources at hand and
  follow the specification's description.
\<close>

datatype error =
    Error string
  | TypeError string
  | NotFound string
  | ValidationError string

section \<open>Pad model: \<^verbatim>\<open>model/pad.js\<close>\<close>

subsection \<open>Records\<close>

text \<open>
  \<open>params\<close> is the argument object of \<^verbatim>\<open>pad.set\<close> (the source's \<^verbatim>\<open>p.name\<close> is
  \<open>p_name\<close>). The required fields \<^verbatim>\<open>name\<close> and \<^verbatim>\<open>group\<close> are strings, \<^verbatim>\<open>_id\<close> is a
  string or absent; the four optional fields are arbitrary values.
\<close>

record params =
  p_name :: string
  p_group :: string
  p_visibility :: jsval
  p_users :: jsval
  p_password :: jsval
  p_readonly :: jsval
  p_id :: "string option"

text \<open>
  \<open>props\<close> is the object \<^verbatim>\<open>u\<close> built by \<^verbatim>\<open>assignProps\<close>; \<open>pad\<close> is the same object once
  \<^verbatim>\<open>pad.set\<close> has assigned its \<^verbatim>\<open>_id\<close>. The filtered \<^verbatim>\<open>users\<close> array holds strings only
  and is kept as a list of strings.
\<close>

record props =
  pad_name :: string
  pad_group :: string
  pad_users :: "string list"
  pad_visibility :: jsval
  pad_password :: jsval
  pad_readonly :: jsval

record pad = props +
  pad_id :: string

subsection \<open>assignProps\<close>

text \<open>\<^verbatim>\<open>ld.filter(p.users, ld.isString)\<close>: the string entries, in order.\<close>

fun filter_isString :: "jsval list \<Rightarrow> string list" where
  "filter_isString [] = []"
| "filter_isString (JStr s # vs) = s # filter_isString vs"
| "filter_isString (v # vs) = filter_isString vs"

text \<open>\<^verbatim>\<open>ld.filter\<close> applied to the \<^verbatim>\<open>users\<close> field; it is only called on arrays.\<close>

fun ld_filter_isString :: "jsval \<Rightarrow> string list" where
  "ld_filter_isString (JArr us) = filter_isString us"
| "ld_filter_isString v = []"

definition vVal :: "jsval list" where
  "vVal = [JStr ''restricted'', JStr ''private'', JStr ''public'']"

definition assignProps :: "params \<Rightarrow> props" where
  "assignProps p =
     (let v = p_visibility p in
      \<lparr> pad_name = p_name p,
        pad_group = p_group p,
        pad_users =
          (if p_visibility p = JStr ''restricted'' \<and> isArray (p_users p)
           then ld_filter_isString (p_users p) else []),
        pad_visibility = (if isString v \<and> v \<in> set vVal then v else JNull),
        pad_password = (if isString (p_password p) then p_password p else JNull),
        pad_readonly = (if isBoolean (p_readonly p) then p_readonly p else JNull) \<rparr>)"

subsection \<open>The store\<close>

text \<open>
  A stored user holds its login and its password record (salt and hash); a stored group
  holds, among others, its own \<^verbatim>\<open>_id\<close> and the list \<^verbatim>\<open>pads\<close> of the ids of its pads.
\<close>

record hashres =
  salt :: string
  hash :: string

record user =
  u_login :: string
  u_password :: "hashres option"

record group =
  g_id :: string
  g_name :: string
  g_admins :: "string list"
  g_users :: "string list"
  g_pads :: "string list"
  g_visibility :: jsval
  g_password :: jsval
  g_readonly :: jsval

text \<open>
  The flat key-value store holds every record under the key \<^verbatim>\<open>PREFIX + id\<close>, with the
  prefixes \<^verbatim>\<open>PPREFIX\<close>, \<^verbatim>\<open>GPREFIX\<close> and \<^verbatim>\<open>UPREFIX\<close> of \<^verbatim>\<open>storage.DBPREFIX\<close>. The three
  key spaces are kept as three maps from the id to the record: the key \<^verbatim>\<open>GPREFIX + x\<close>
  is the argument \<open>x\<close> of \<open>db_groups\<close>. Each operation runs to completion on the store
  it is given; interleavings of several operations are not part of this model.
\<close>

record store =
  db_pads :: "string \<rightharpoonup> pad"
  db_groups :: "string \<rightharpoonup> group"
  db_users :: "string \<rightharpoonup> user"

text \<open>
  Modelled from the spec: \<^verbatim>\<open>storage.db.get\<close> of the KeyStore contract (\<^verbatim>\<open>storage.js\<close> is
  not among the sources): \<^verbatim>\<open>get(key)\<close> yields the record or fails with NotFound.
\<close>

definition db_get :: "(string \<rightharpoonup> 'v) \<Rightarrow> string \<Rightarrow> error + 'v" where
  "db_get m k = (case m k of None \<Rightarrow> Inl (NotFound k) | Some v \<Rightarrow> Inr v)"

text \<open>
  Modelled from the spec: \<^verbatim>\<open>storage.db.set\<close> of the KeyStore contract: \<^verbatim>\<open>set(key, record)\<close>
  yields ok or an error. In this in-memory store the write always succeeds; the
  callers keep their error branches.
\<close>

definition db_set :: "(string \<rightharpoonup> 'v) \<Rightarrow> string \<Rightarrow> 'v \<Rightarrow> error + (string \<rightharpoonup> 'v)" where
  "db_set m k v = Inr (m(k \<mapsto> v))"

text \<open>
  Modelled from the spec: the deletion of the KeyStore contract: \<^verbatim>\<open>delete(key)\<close> yields
  ok or an error. In this in-memory store it always succeeds.
\<close>

definition db_remove :: "(string \<rightharpoonup> 'v) \<Rightarrow> string \<Rightarrow> error + (string \<rightharpoonup> 'v)" where
  "db_remove m k = Inr (m(k := None))"

text \<open>
  Modelled from the spec: \<^verbatim>\<open>common.checkExistence\<close> (\<^verbatim>\<open>model/common.js\<close> is not among the
  sources) is \<^verbatim>\<open>exists(key)\<close>: true iff the store has a record under the key.
\<close>

definition checkExistence :: "(string \<rightharpoonup> 'v) \<Rightarrow> string \<Rightarrow> error + bool" where
  "checkExistence m k = Inr (m k \<noteq> None)"

text \<open>
  Modelled from the spec: \<^verbatim>\<open>common.checkMultiExist\<close> (\<^verbatim>\<open>model/common.js\<close> is not among
  the sources) is \<^verbatim>\<open>existsAll(keys)\<close>: true iff every key of the sequence exists.
\<close>

definition checkMultiExist :: "(string \<rightharpoonup> 'v) \<Rightarrow> string list \<Rightarrow> error + bool" where
  "checkMultiExist m ks = Inr (list_all (\<lambda>k. m k \<noteq> None) ks)"

text \<open>
  Modelled from the spec: \<^verbatim>\<open>common.getDel\<close> (\<^verbatim>\<open>model/common.js\<close> is not among the
  sources) is \<^verbatim>\<open>getOrDelete(remove, prefix, id)\<close>: it fetches the record, fails with
  NotFound if it is absent and, if \<^verbatim>\<open>remove\<close> is true, deletes the key after the fetch
  and returns the value from before the deletion.
\<close>

definition getDel ::
  "bool \<Rightarrow> (string \<rightharpoonup> 'v) \<Rightarrow> string \<Rightarrow> (error + 'v) \<times> (string \<rightharpoonup> 'v)" where
  "getDel del m k =
     (case db_get m k of
        Inl err \<Rightarrow> (Inl err, m)
      | Inr v \<Rightarrow>
          if del
          then (case db_remove m k of
                  Inl err \<Rightarrow> (Inl err, m)
                | Inr m' \<Rightarrow> (Inr v, m'))
          else (Inr v, m))"

text \<open>
  Modelled from the spec: \<^verbatim>\<open>validateRequiredFields(params, requiredFieldNames)\<close> fails
  with a ValidationError naming the first required field that is empty. The fields
  are given with their values.
\<close>

fun validateRequiredFields :: "(string \<times> string) list \<Rightarrow> error option" where
  "validateRequiredFields [] = None"
| "validateRequiredFields ((f, v) # fs) =
     (if v = [] then Some (ValidationError f) else validateRequiredFields fs)"

text \<open>
  Modelled from the spec: \<^verbatim>\<open>common.addSetInit\<close> (\<^verbatim>\<open>model/common.js\<close> is not among the
  sources), called with the field names \<^verbatim>\<open>name\<close> and \<^verbatim>\<open>group\<close>, is the validation of
  these required fields; its failure is thrown before any access to the store.
\<close>

definition addSetInit :: "params \<Rightarrow> error option" where
  "addSetInit params =
     validateRequiredFields [(''name'', p_name params), (''group'', p_group params)]"

subsection \<open>Internal functions\<close>

text \<open>
  Every function of \<^verbatim>\<open>pad.js\<close> calls its callback exactly once, in tail position, or
  throws before any call. A function is therefore modelled by the arguments of that
  one call together with the store it leaves: \<^verbatim>\<open>callback(err)\<close> is \<open>Some err\<close> or
  \<open>Inl err\<close>, \<^verbatim>\<open>callback(null)\<close> is \<open>None\<close>, \<^verbatim>\<open>callback(null, p)\<close> is \<open>Inr p\<close>.
\<close>

text \<open>The local function \<^verbatim>\<open>_set\<close> of \<^verbatim>\<open>indexGroups\<close>: it writes the group under its own
  \<^verbatim>\<open>_id\<close>.\<close>

definition indexGroups_set :: "group \<Rightarrow> store \<Rightarrow> error option \<times> store" where
  "indexGroups_set g s =
     (case db_set (db_groups s) (g_id g) g of
        Inl err \<Rightarrow> (Some err, s)
      | Inr m \<Rightarrow> (None, s\<lparr>db_groups := m\<rparr>))"

text \<open>\<^verbatim>\<open>ld.pull\<close> removes every occurrence, \<^verbatim>\<open>ld.includes\<close> tests membership,
  \<^verbatim>\<open>push\<close> appends.\<close>

definition indexGroups :: "bool \<Rightarrow> pad \<Rightarrow> store \<Rightarrow> error option \<times> store" where
  "indexGroups del p s =
     (case db_get (db_groups s) (pad_group p) of
        Inl err \<Rightarrow> (Some err, s)
      | Inr g \<Rightarrow>
          if del
          then indexGroups_set (g\<lparr>g_pads := removeAll (pad_id p) (g_pads g)\<rparr>) s
          else if pad_id p \<notin> set (g_pads g)
               then indexGroups_set (g\<lparr>g_pads := g_pads g @ [pad_id p]\<rparr>) s
               else (None, s))"

definition fn_set :: "pad \<Rightarrow> store \<Rightarrow> (error + pad) \<times> store" where
  "fn_set p s =
     (case db_set (db_pads s) (pad_id p) p of
        Inl err \<Rightarrow> (Inl err, s)
      | Inr m \<Rightarrow>
          (case indexGroups False p (s\<lparr>db_pads := m\<rparr>) of
             (Some err, s') \<Rightarrow> (Inl err, s')
           | (None, s') \<Rightarrow> (Inr p, s')))"

definition checkSet :: "pad \<Rightarrow> store \<Rightarrow> (error + pad) \<times> store" where
  "checkSet p s =
     (if length (pad_users p) \<noteq> 0
      then (case checkMultiExist (db_users s) (pad_users p) of
              Inl err \<Rightarrow> (Inl err, s)
            | Inr res \<Rightarrow>
                if \<not> res then (Inl (Error ''some users not found''), s)
                else fn_set p s)
      else fn_set p s)"

subsection \<open>Public functions\<close>

text \<open>
  A public function either throws (\<open>Throws\<close>) or calls its callback once, with an error
  (\<open>CbErr\<close>) or with \<^verbatim>\<open>null\<close> and a value (\<open>CbOk\<close>).
\<close>

datatype 'a reply = Throws error | CbErr error | CbOk 'a

fun reply_of :: "error + 'a \<Rightarrow> 'a reply" where
  "reply_of (Inl err) = CbErr err"
| "reply_of (Inr v) = CbOk v"

text \<open>\<^verbatim>\<open>p._id = ...\<close>: the object \<^verbatim>\<open>p\<close> of \<^verbatim>\<open>pad.set\<close> with its \<^verbatim>\<open>_id\<close> assigned.\<close>

definition with_id :: "props \<Rightarrow> string \<Rightarrow> pad" where
  "with_id u i = props.extend u (pad.fields i)"

definition pad_get :: "string \<Rightarrow> store \<Rightarrow> pad reply" where
  "pad_get key s = reply_of (fst (getDel False (db_pads s) key))"

text \<open>
  \<^verbatim>\<open>pad.set\<close>. The argument \<open>cuid\<close> is the value the call \<^verbatim>\<open>cuid()\<close> returns. The test
  \<^verbatim>\<open>if (params._id)\<close> is one of truthiness: it fails for an absent \<^verbatim>\<open>_id\<close> and for the
  empty string.
\<close>

definition pad_set :: "params \<Rightarrow> string \<Rightarrow> store \<Rightarrow> pad reply \<times> store" where
  "pad_set params cuid s =
     (case addSetInit params of
        Some e \<Rightarrow> (Throws e, s)
      | None \<Rightarrow>
          let u = assignProps params in
          if p_id params \<noteq> None \<and> p_id params \<noteq> Some []
          then
            (let p = with_id u (the (p_id params)) in
             case checkExistence (db_pads s) (pad_id p) of
               Inl err \<Rightarrow> (CbErr err, s)
             | Inr res \<Rightarrow>
                 if \<not> res then (CbErr (Error ''pad does not exist''), s)
                 else (case checkSet p s of (r, s') \<Rightarrow> (reply_of r, s')))
          else
            (let p = with_id u cuid in
             case checkSet p s of (r, s') \<Rightarrow> (reply_of r, s')))"

text \<open>\<^verbatim>\<open>pad.del\<close>. The argument \<open>isFunction_callback\<close> is \<^verbatim>\<open>ld.isFunction(callback)\<close>.\<close>

definition pad_del :: "bool \<Rightarrow> string \<Rightarrow> store \<Rightarrow> unit reply \<times> store" where
  "pad_del isFunction_callback key s =
     (if \<not> isFunction_callback
      then (Throws (TypeError ''callback must be a function''), s)
      else
        (case getDel True (db_pads s) key of
           (Inl err, m) \<Rightarrow> (CbErr err, s)
         | (Inr p, m) \<Rightarrow>
             (case indexGroups True p (s\<lparr>db_pads := m\<rparr>) of
                (Some err, s') \<Rightarrow> (CbErr err, s')
              | (None, s') \<Rightarrow> (CbOk (), s'))))"

section \<open>Credential verification: \<^verbatim>\<open>auth.js\<close>\<close>

text \<open>
  \<^verbatim>\<open>isPasswordValid\<close> does not leave its callback in tail position, so the functions of
  \<^verbatim>\<open>auth.js\<close> are modelled by the trace they produce: the list of the calls made to
  the callback, in order, and the exception thrown after them, if any. \<open>Call err v\<close> is
  the call \<^verbatim>\<open>callback(err, v)\<close>, with \<open>None\<close> for \<^verbatim>\<open>null\<close> or an omitted argument.
\<close>

datatype 'a call = Call "error option" "'a option"

text \<open>
  \<^verbatim>\<open>user.fn.hashPassword\<close> (\<^verbatim>\<open>model/user.js\<close> is not among the sources) is a parameter:
  the pair \<open>(err, res)\<close> it passes to its callback for a salt and a password.
\<close>

type_synonym hashfn = "string \<Rightarrow> string \<Rightarrow> error option \<times> hashres option"

text \<open>
  Modelled from the spec: \<^verbatim>\<open>user.get\<close> (\<^verbatim>\<open>model/user.js\<close> is not among the sources)
  loads the user record of a login and fails with NotFound if it is absent.
\<close>

definition user_get :: "string \<Rightarrow> store \<Rightarrow> error + user" where
  "user_get login s = fst (getDel False (db_users s) login)"

text \<open>
  \<^verbatim>\<open>isPasswordValid\<close>. After \<^verbatim>\<open>if (err) { callback(err); }\<close> the function goes on to
  read \<^verbatim>\<open>res.hash\<close>, which throws a TypeError when \<^verbatim>\<open>res\<close> is undefined.
\<close>

definition isPasswordValid :: "hashfn \<Rightarrow> user \<Rightarrow> string \<Rightarrow> bool call list \<times> error option" where
  "isPasswordValid hashPassword u password =
     (case u_password u of
        None \<Rightarrow> ([], Some (TypeError ''Cannot read property salt of undefined''))
      | Some pw \<Rightarrow>
          (case hashPassword (salt pw) password of
             (err, res) \<Rightarrow>
               let calls = (case err of Some e \<Rightarrow> [Call (Some e) None] | None \<Rightarrow> []) in
               (case res of
                  None \<Rightarrow> (calls, Some (TypeError ''Cannot read property hash of undefined''))
                | Some r \<Rightarrow>
                    if hash r = hash pw then (calls @ [Call None (Some True)], None)
                    else (calls @ [Call None (Some False)], None))))"

text \<open>The second argument \<^verbatim>\<open>localFn\<close> passes to its callback: \<^verbatim>\<open>false\<close> or the user.\<close>

datatype authval = AFalse | AUser user

text \<open>The callback \<^verbatim>\<open>localFn\<close> hands to \<^verbatim>\<open>isPasswordValid\<close>: one outer call per call.\<close>

definition localFn_cb :: "user \<Rightarrow> bool call \<Rightarrow> authval call" where
  "localFn_cb u c =
     (case c of
        Call err isValid \<Rightarrow>
          (case err of
             Some e \<Rightarrow> Call (Some e) None
           | None \<Rightarrow>
               if isValid \<noteq> Some True
               then Call (Some (Error ''password is not correct'')) (Some AFalse)
               else Call None (Some (AUser u))))"

definition localFn ::
  "hashfn \<Rightarrow> string \<Rightarrow> string \<Rightarrow> store \<Rightarrow> authval call list \<times> error option" where
  "localFn hashPassword login password s =
     (case user_get login s of
        Inl err \<Rightarrow> ([Call (Some err) None], None)
      | Inr u \<Rightarrow>
          (case isPasswordValid hashPassword u password of
             (calls, thrown) \<Rightarrow> (map (localFn_cb u) calls, thrown)))"

section \<open>Invitation tokens: \<^verbatim>\<open>mail.genToken\<close> and \<^verbatim>\<open>mail.isValidToken\<close>\<close>

text \<open>
  The module state: the two objects \<^verbatim>\<open>mail.tokens\<close> and \<^verbatim>\<open>mail.ends\<close>, as maps of their
  own properties. Both are created as plain objects \<^verbatim>\<open>{}\<close>, so a read of a name that
  is not an own property goes on to \<^verbatim>\<open>Object.prototype\<close>. Times are integers
  (milliseconds).
\<close>

record mail =
  tokens :: "string \<rightharpoonup> jsval"
  ends :: "string \<rightharpoonup> int"

definition mail_init :: mail where
  "mail_init = \<lparr> tokens = Map.empty, ends = Map.empty \<rparr>"

text \<open>
  \<^verbatim>\<open>parseFloat(conf.get('tokenDuration')) || 60\<close>: the argument is the number parsed from
  the configuration, \<open>None\<close> for \<^verbatim>\<open>NaN\<close>; \<^verbatim>\<open>NaN\<close> and \<^verbatim>\<open>0\<close> are falsy.
\<close>

definition duration :: "int option \<Rightarrow> int" where
  "duration tokenDuration =
     (case tokenDuration of None \<Rightarrow> 60 | Some d \<Rightarrow> if d = 0 then 60 else d)"

text \<open>
  \<^verbatim>\<open>genToken\<close>. The arguments \<open>now\<close> and \<open>cuid\<close> are the values of \<^verbatim>\<open>Date.now()\<close> and
  \<^verbatim>\<open>cuid()\<close> in this call.
\<close>

definition genToken ::
  "jsval \<Rightarrow> int option \<Rightarrow> int \<Rightarrow> string \<Rightarrow> mail \<Rightarrow> error + string \<times> mail" where
  "genToken val tokenDuration now cuid m =
     (if isUndefined val then Inl (TypeError ''BACKEND.ERROR.TYPE.PARAMS_REQUIRED'')
      else
        let ts = now;
            end_ts = ts + duration tokenDuration * 60 * 1000;
            token = cuid
        in Inr (token, m\<lparr> tokens := (tokens m)(token \<mapsto> val),
                           ends := (ends m)(token \<mapsto> end_ts) \<rparr>))"

text \<open>The operator \<^verbatim>\<open>a && b\<close> yields \<^verbatim>\<open>a\<close> itself when \<^verbatim>\<open>a\<close> is falsy, and \<^verbatim>\<open>b\<close> otherwise.\<close>

definition js_and :: "jsval \<Rightarrow> jsval \<Rightarrow> jsval" where
  "js_and a b = (if truthy a then b else a)"

text \<open>
  The property names every plain object inherits from \<^verbatim>\<open>Object.prototype\<close> (Node.js).
  The inherited values are functions, and \<^verbatim>\<open>Object.prototype\<close> itself for \<^verbatim>\<open>__proto__\<close>:
  all of them are truthy, and none of them is a number.
\<close>

definition Object_prototype :: "string list" where
  "Object_prototype =
     [''constructor'', ''__defineGetter__'', ''__defineSetter__'', ''hasOwnProperty'',
      ''__lookupGetter__'', ''__lookupSetter__'', ''isPrototypeOf'',
      ''propertyIsEnumerable'', ''toString'', ''valueOf'', ''__proto__'',
      ''toLocaleString'']"

text \<open>
  The read \<^verbatim>\<open>mail.tokens[token]\<close>: the own property if there is one, else the value
  inherited from \<^verbatim>\<open>Object.prototype\<close>, else \<^verbatim>\<open>undefined\<close>.
\<close>

definition tokens_get :: "mail \<Rightarrow> string \<Rightarrow> jsval" where
  "tokens_get m token =
     (case tokens m token of
        Some v \<Rightarrow> v
      | None \<Rightarrow> if token \<in> set Object_prototype then JBuiltin token else JUndefined)"

text \<open>
  The comparison \<^verbatim>\<open>Date.now() < mail.ends[token]\<close>. Without an own property the read
  yields \<^verbatim>\<open>undefined\<close> or an inherited function or object; each converts to \<^verbatim>\<open>NaN\<close>, and
  a comparison with \<^verbatim>\<open>NaN\<close> is false.
\<close>

definition before_end :: "mail \<Rightarrow> string \<Rightarrow> int \<Rightarrow> bool" where
  "before_end m token now = (case ends m token of Some e \<Rightarrow> now < e | None \<Rightarrow> False)"

text \<open>
  \<^verbatim>\<open>isValidToken\<close>. The tokens written by \<^verbatim>\<open>genToken\<close> are values of \<^verbatim>\<open>cuid()\<close>, stored
  as own properties.
\<close>

definition isValidToken :: "mail \<Rightarrow> string \<Rightarrow> int \<Rightarrow> jsval" where
  "isValidToken m token now = js_and (tokens_get m token) (JBool (before_end m token now))"

text \<open>
  A history of the module: the calls to \<^verbatim>\<open>genToken\<close> made so far, each with its payload,
  the configured duration, the time and the value of \<^verbatim>\<open>cuid()\<close>. \<open>issues\<close> is the state
  the calls leave, \<open>returned\<close> the tokens they returned; a call that throws changes
  nothing and returns nothing.
\<close>

type_synonym issue_call = "jsval \<times> int option \<times> int \<times> string"

fun issues :: "issue_call list \<Rightarrow> mail \<Rightarrow> mail" where
  "issues [] m = m"
| "issues ((val, d, now, c) # cs) m =
     (case genToken val d now c m of
        Inl e \<Rightarrow> issues cs m
      | Inr (t, m') \<Rightarrow> issues cs m')"

fun returned :: "issue_call list \<Rightarrow> mail \<Rightarrow> string list" where
  "returned [] m = []"
| "returned ((val, d, now, c) # cs) m =
     (case genToken val d now c m of
        Inl e \<Rightarrow> returned cs m
      | Inr (t, m') \<Rightarrow> t # returned cs m')"

section \<open>A concrete scenario\<close>

text \<open>
  The group \<^verbatim>\<open>g1\<close> with no pads, the registered user \<^verbatim>\<open>alice\<close>, and the parameter
  objects of the scenarios of the specification.
\<close>

definition toy_hash :: hashfn where
  "toy_hash s password = (None, Some \<lparr> salt = s, hash = s @ password \<rparr>)"

definition failing_hash :: hashfn where
  "failing_hash s password = (Some (Error ''hash failure''), None)"

definition alice :: user where
  "alice = \<lparr> u_login = ''alice'',
             u_password = Some \<lparr> salt = ''na'', hash = ''nasecret'' \<rparr> \<rparr>"

definition g1 :: group where
  "g1 = \<lparr> g_id = ''g1'', g_name = ''Group'', g_admins = [''alice''], g_users = [],
          g_pads = [], g_visibility = JStr ''private'', g_password = JNull,
          g_readonly = JNull \<rparr>"

definition store1 :: store where
  "store1 = \<lparr> db_pads = Map.empty, db_groups = [''g1'' \<mapsto> g1],
              db_users = [''alice'' \<mapsto> alice] \<rparr>"

definition doc :: params where
  "doc = \<lparr> p_name = ''Doc'', p_group = ''g1'', p_visibility = JStr ''public'',
           p_users = JUndefined, p_password = JUndefined, p_readonly = JUndefined,
           p_id = None \<rparr>"

definition doc2 :: params where
  "doc2 = \<lparr> p_name = ''Doc2'', p_group = ''g1'', p_visibility = JStr ''restricted'',
            p_users = JArr [JStr ''nouser''], p_password = JUndefined,
            p_readonly = JUndefined, p_id = None \<rparr>"

definition doc3 :: params where
  "doc3 = \<lparr> p_name = ''Doc3'', p_group = ''g2'', p_visibility = JStr ''restricted'',
            p_users = JArr [JStr ''alice'', JNum 7], p_password = JStr ''pw'',
            p_readonly = JBool True, p_id = None \<rparr>"

text \<open>The pad the first scenario creates, the store it leaves, and an update of that pad.\<close>

definition pad1 :: pad where
  "pad1 = \<lparr> pad_name = ''Doc'', pad_group = ''g1'', pad_users = [],
            pad_visibility = JStr ''public'', pad_password = JNull,
            pad_readonly = JNull, pad_id = ''p1'' \<rparr>"

definition store2 :: store where
  "store2 = \<lparr> db_pads = [''p1'' \<mapsto> pad1],
              db_groups = [''g1'' \<mapsto> g1\<lparr>g_pads := [''p1'']\<rparr>],
              db_users = [''alice'' \<mapsto> alice] \<rparr>"

definition doc_update :: params where
  "doc_update = \<lparr> p_name = ''Doc renamed'', p_group = ''g1'',
                  p_visibility = JStr ''private'', p_users = JUndefined,
                  p_password = JStr ''pw'', p_readonly = JBool True,
                  p_id = Some ''p1'' \<rparr>"




section \<open>Properties of assignProps\<close>

lemma filter_isString_filter:
  "map JStr (filter_isString us) = filter isString us"
  by (induction us rule: filter_isString.induct) simp_all

lemma set_filter_isString: "set (filter_isString us) = {l. JStr l \<in> set us}"
  by (induction us rule: filter_isString.induct) auto

lemma pad_group_assignProps: "pad_group (assignProps params) = p_group params"
  by (simp add: assignProps_def Let_def)

lemma pad_users_assignProps_restricted:
  "p_visibility params = JStr ''restricted'' \<Longrightarrow> p_users params = JArr us \<Longrightarrow>
   pad_users (assignProps params) = filter_isString us"
  by (simp add: assignProps_def Let_def)

text \<open>
  Claim C4. With \<^verbatim>\<open>visibility\<close> equal to the string \<^verbatim>\<open>restricted\<close> and \<^verbatim>\<open>users\<close> an
  array, the \<^verbatim>\<open>users\<close> of the result are exactly the string entries of the input array,
  in order; with any other \<^verbatim>\<open>visibility\<close> the \<^verbatim>\<open>users\<close> of the result are empty.
\<close>

theorem assignProps_users:
  "(p_visibility p = JStr ''restricted'' \<and> p_users p = JArr us \<longrightarrow>
      map JStr (pad_users (assignProps p)) = filter isString us) \<and>
   (p_visibility p \<noteq> JStr ''restricted'' \<longrightarrow> pad_users (assignProps p) = [])"
  by (simp add: assignProps_def Let_def filter_isString_filter)

theorem assignProps_users_witness:
  "p_visibility doc3 = JStr ''restricted'' \<and>
   p_users doc3 = JArr [JStr ''alice'', JNum 7] \<and>
   map JStr (pad_users (assignProps doc3)) = [JStr ''alice''] \<and>
   p_visibility doc \<noteq> JStr ''restricted'' \<and>
   pad_users (assignProps doc) = []"
  using assignProps_users [of doc3 "[JStr ''alice'', JNum 7]"] assignProps_users [of doc]
  by (simp add: doc3_def doc_def)

text \<open>
  Claim C5. The \<^verbatim>\<open>visibility\<close> of the result is the input \<^verbatim>\<open>visibility\<close> when that is one
  of the strings \<^verbatim>\<open>restricted\<close>, \<^verbatim>\<open>private\<close>, \<^verbatim>\<open>public\<close>, and \<^verbatim>\<open>null\<close> otherwise; the
  \<^verbatim>\<open>password\<close> is the input \<^verbatim>\<open>password\<close> when that is a string, and \<^verbatim>\<open>null\<close> otherwise;
  the \<^verbatim>\<open>readonly\<close> is the input \<^verbatim>\<open>readonly\<close> when that is a boolean, and \<^verbatim>\<open>null\<close>
  otherwise.
\<close>

theorem assignProps_normalized:
  "pad_visibility (assignProps p) =
     (if p_visibility p \<in> {JStr ''restricted'', JStr ''private'', JStr ''public''}
      then p_visibility p else JNull) \<and>
   pad_password (assignProps p) =
     (case p_password p of JStr w \<Rightarrow> JStr w | _ \<Rightarrow> JNull) \<and>
   pad_readonly (assignProps p) =
     (case p_readonly p of JBool b \<Rightarrow> JBool b | _ \<Rightarrow> JNull)"
  by (auto simp: assignProps_def Let_def vVal_def split: jsval.split)

theorem assignProps_normalized_witness:
  "pad_visibility (assignProps doc_update) = JStr ''private'' \<and>
   pad_password (assignProps doc_update) = JStr ''pw'' \<and>
   pad_readonly (assignProps doc_update) = JBool True \<and>
   pad_visibility (assignProps (doc\<lparr>p_visibility := JStr ''secret''\<rparr>)) = JNull \<and>
   pad_password (assignProps (doc\<lparr>p_password := JNum 1234\<rparr>)) = JNull \<and>
   pad_readonly (assignProps (doc\<lparr>p_readonly := JStr ''true''\<rparr>)) = JNull"
  using assignProps_normalized [of doc_update]
    assignProps_normalized [of "doc\<lparr>p_visibility := JStr ''secret''\<rparr>"]
    assignProps_normalized [of "doc\<lparr>p_password := JNum 1234\<rparr>"]
    assignProps_normalized [of "doc\<lparr>p_readonly := JStr ''true''\<rparr>"]
  by (simp add: doc_update_def doc_def)

section \<open>Properties of the pad operations\<close>

subsection \<open>The internal functions\<close>

lemma pad_id_with_id: "pad_id (with_id u i) = i"
  by (simp add: with_id_def props.defs pad.defs)

lemma pad_group_with_id: "pad_group (with_id u i) = pad_group u"
  by (simp add: with_id_def props.defs pad.defs)

lemma pad_users_with_id: "pad_users (with_id u i) = pad_users u"
  by (simp add: with_id_def props.defs pad.defs)

lemma indexGroups_absent:
  "db_groups s (pad_group p) = None \<Longrightarrow>
   indexGroups del p s = (Some (NotFound (pad_group p)), s)"
  by (simp add: indexGroups_def db_get_def)

lemma indexGroups_add:
  assumes "db_groups s (pad_group p) = Some g" and "g_id g = pad_group p"
  shows "\<exists>g'. indexGroups False p s =
              (None, s\<lparr>db_groups := (db_groups s)(pad_group p \<mapsto> g')\<rparr>)
           \<and> pad_id p \<in> set (g_pads g')"
proof (cases "pad_id p \<in> set (g_pads g)")
  case True
  then have "indexGroups False p s = (None, s)"
    using assms by (simp add: indexGroups_def db_get_def)
  moreover have "s\<lparr>db_groups := (db_groups s)(pad_group p \<mapsto> g)\<rparr> = s"
    using assms(1) by (simp add: fun_upd_idem)
  ultimately show ?thesis
    using True by metis
next
  case False
  then have "indexGroups False p s =
      (None, s\<lparr>db_groups :=
                 (db_groups s)(pad_group p \<mapsto> g\<lparr>g_pads := g_pads g @ [pad_id p]\<rparr>)\<rparr>)"
    using assms by (simp add: indexGroups_def indexGroups_set_def db_get_def db_set_def)
  then show ?thesis by auto
qed

lemma indexGroups_del:
  assumes "db_groups s (pad_group p) = Some g" and "g_id g = pad_group p"
  shows "indexGroups True p s =
    (None, s\<lparr>db_groups :=
               (db_groups s)(pad_group p \<mapsto> g\<lparr>g_pads := removeAll (pad_id p) (g_pads g)\<rparr>)\<rparr>)"
  using assms by (simp add: indexGroups_def indexGroups_set_def db_get_def db_set_def)

lemma indexGroups_db_pads: "db_pads (snd (indexGroups del p s)) = db_pads s"
  by (simp add: indexGroups_def indexGroups_set_def db_get_def db_set_def
      split: option.split)

lemma fn_set_group_absent:
  "db_groups s (pad_group p) = None \<Longrightarrow>
   fn_set p s =
     (Inl (NotFound (pad_group p)), s\<lparr>db_pads := (db_pads s)(pad_id p \<mapsto> p)\<rparr>)"
  by (simp add: fn_set_def db_set_def indexGroups_absent)

lemma fn_set_group_present:
  assumes "db_groups s (pad_group p) = Some g" and "g_id g = pad_group p"
  shows "\<exists>g'. fn_set p s =
      (Inr p, s\<lparr>db_pads := (db_pads s)(pad_id p \<mapsto> p),
                db_groups := (db_groups s)(pad_group p \<mapsto> g')\<rparr>)
    \<and> pad_id p \<in> set (g_pads g')"
proof -
  let ?s1 = "s\<lparr>db_pads := (db_pads s)(pad_id p \<mapsto> p)\<rparr>"
  have "db_groups ?s1 (pad_group p) = Some g" using assms(1) by simp
  from indexGroups_add [OF this assms(2)]
  obtain g' where g': "indexGroups False p ?s1 =
      (None, ?s1\<lparr>db_groups := (db_groups ?s1)(pad_group p \<mapsto> g')\<rparr>)"
     and mem: "pad_id p \<in> set (g_pads g')" by blast
  have "fn_set p s = (Inr p, ?s1\<lparr>db_groups := (db_groups ?s1)(pad_group p \<mapsto> g')\<rparr>)"
    by (simp add: fn_set_def db_set_def g')
  with mem show ?thesis by auto
qed


lemma fn_set_ok:
  assumes "fn_set p s = (Inr p', s')"
  shows "p' = p \<and> db_pads s' (pad_id p) = Some p"
proof -
  let ?s1 = "s\<lparr>db_pads := (db_pads s)(pad_id p \<mapsto> p)\<rparr>"
  obtain r s2 where ig: "indexGroups False p ?s1 = (r, s2)"
    by (cases "indexGroups False p ?s1")
  have "db_pads s2 = db_pads ?s1"
    using indexGroups_db_pads [of False p ?s1] by (simp add: ig)
  moreover have "p' = p \<and> s' = s2"
    using assms by (simp add: fn_set_def db_set_def ig split: option.splits)
  ultimately show ?thesis by simp
qed

lemma checkSet_cases:
  "checkSet p s = (Inl (Error ''some users not found''), s) \<or> checkSet p s = fn_set p s"
  by (simp add: checkSet_def checkMultiExist_def)

lemma checkSet_users_present:
  "list_all (\<lambda>l. db_users s l \<noteq> None) (pad_users p) \<Longrightarrow> checkSet p s = fn_set p s"
  by (simp add: checkSet_def checkMultiExist_def)

lemma checkSet_user_absent:
  assumes "l \<in> set (pad_users p)" and "db_users s l = None"
  shows "checkSet p s = (Inl (Error ''some users not found''), s)"
proof -
  from assms(1) have "pad_users p \<noteq> []" by auto
  moreover from assms have "\<not> list_all (\<lambda>k. db_users s k \<noteq> None) (pad_users p)"
    by (auto simp: list_all_iff)
  ultimately show ?thesis
    by (simp add: checkSet_def checkMultiExist_def)
qed

lemma checkSet_ok:
  assumes "checkSet p s = (Inr p', s')"
  shows "p' = p \<and> db_pads s' (pad_id p) = Some p"
  using assms checkSet_cases [of p s] fn_set_ok [of p s p' s'] by auto

subsection \<open>The two paths of \<^verbatim>\<open>pad.set\<close>\<close>

lemma pad_set_create:
  assumes "p_id params = None"
  shows "pad_set params cuid s =
     (case addSetInit params of
        Some e \<Rightarrow> (Throws e, s)
      | None \<Rightarrow> (reply_of (fst (checkSet (with_id (assignProps params) cuid) s)),
                 snd (checkSet (with_id (assignProps params) cuid) s)))"
  using assms by (simp add: pad_set_def Let_def split: option.split prod.split)


subsection \<open>The scenarios, evaluated\<close>

lemma pad_set_doc: "pad_set doc ''p1'' store1 = (CbOk pad1, store2)"
  by (simp add: pad_set_def addSetInit_def doc_def store1_def store2_def g1_def pad1_def
      assignProps_def vVal_def with_id_def props.defs pad.defs checkSet_def fn_set_def
      indexGroups_def indexGroups_set_def db_get_def db_set_def Let_def)

lemma pad_del_p1: "pad_del True ''p1'' store2 = (CbOk (), store1)"
  by (simp add: pad_del_def getDel_def store1_def store2_def g1_def pad1_def
      indexGroups_def indexGroups_set_def db_get_def db_set_def db_remove_def)

lemma pad_set_doc3:
  "pad_set doc3 ''p3'' store1 =
     (CbErr (NotFound ''g2''),
      store1\<lparr>db_pads := [''p3'' \<mapsto> with_id (assignProps doc3) ''p3'']\<rparr>)"
  by (simp add: pad_set_def addSetInit_def doc3_def store1_def assignProps_def vVal_def
      with_id_def props.defs pad.defs checkSet_def checkMultiExist_def Let_def
      fn_set_def indexGroups_def db_get_def db_set_def)

lemma pad_set_doc2_g2:
  "pad_set (doc2\<lparr>p_group := ''g2''\<rparr>) ''p4'' store1
     = (CbErr (Error ''some users not found''), store1)"
  by (simp add: pad_set_def addSetInit_def doc2_def store1_def assignProps_def vVal_def
      with_id_def props.defs pad.defs checkSet_def checkMultiExist_def Let_def)




subsection \<open>Creation with a group that does not exist\<close>

text \<open>
  Claim C1, as the code has it. \<^verbatim>\<open>pad.fn.set\<close> writes the pad record first and looks the
  group up afterwards, in \<^verbatim>\<open>indexGroups\<close>. For a creation (no \<^verbatim>\<open>_id\<close>) with valid
  required fields, whose referenced users all exist and whose group id has no record,
  the callback receives the store's NotFound for the group key, and the store the call
  leaves holds the new pad record under the new id; nothing else of the store has
  changed.
\<close>

theorem create_group_absent:
  assumes "addSetInit params = None"
    and "p_id params = None"
    and "list_all (\<lambda>l. db_users s l \<noteq> None) (pad_users (assignProps params))"
    and "db_groups s (p_group params) = None"
  shows "pad_set params cuid s =
    (CbErr (NotFound (p_group params)),
     s\<lparr>db_pads := (db_pads s)(cuid \<mapsto> with_id (assignProps params) cuid)\<rparr>)"
proof -
  let ?p = "with_id (assignProps params) cuid"
  have "checkSet ?p s = fn_set ?p s"
    using assms(3) by (simp add: checkSet_users_present pad_users_with_id)
  moreover have "db_groups s (pad_group ?p) = None"
    using assms(4) by (simp add: pad_group_with_id pad_group_assignProps)
  ultimately have "checkSet ?p s =
      (Inl (NotFound (p_group params)), s\<lparr>db_pads := (db_pads s)(cuid \<mapsto> ?p)\<rparr>)"
    by (simp add: fn_set_group_absent pad_group_with_id pad_group_assignProps
        pad_id_with_id)
  then show ?thesis
    using assms(1) by (simp add: pad_set_create [OF assms(2)])
qed

theorem create_group_absent_witness:
  "addSetInit doc3 = None \<and> p_id doc3 = None \<and>
   list_all (\<lambda>l. db_users store1 l \<noteq> None) (pad_users (assignProps doc3)) \<and>
   db_groups store1 (p_group doc3) = None \<and>
   pad_set doc3 ''p3'' store1 =
     (CbErr (NotFound ''g2''),
      store1\<lparr>db_pads := (db_pads store1)(''p3'' \<mapsto> with_id (assignProps doc3) ''p3'')\<rparr>)"
proof -
  have h: "addSetInit doc3 = None" "p_id doc3 = None"
    "list_all (\<lambda>l. db_users store1 l \<noteq> None) (pad_users (assignProps doc3))"
    "db_groups store1 (p_group doc3) = None"
    by (simp_all add: addSetInit_def doc3_def store1_def assignProps_def Let_def)
  have "p_group doc3 = ''g2''" by (simp add: doc3_def)
  with create_group_absent [OF h, of "''p3''"] h show ?thesis by simp
qed

text \<open>
  The group \<^verbatim>\<open>g2\<close> has no record: the creation fails with NotFound, and the pad record
  is in the store afterwards. When a referenced user is missing as well, the failure
  is that of the users, not NotFound.
\<close>

theorem create_group_absent_persists:
  "db_groups store1 ''g2'' = None \<and>
   fst (pad_set doc3 ''p3'' store1) = CbErr (NotFound ''g2'') \<and>
   db_pads (snd (pad_set doc3 ''p3'' store1)) ''p3''
     = Some (with_id (assignProps doc3) ''p3'') \<and>
   pad_set (doc2\<lparr>p_group := ''g2''\<rparr>) ''p4'' store1
     = (CbErr (Error ''some users not found''), store1)"
  by (simp add: pad_set_doc3 pad_set_doc2_g2) (simp add: store1_def)

subsection \<open>The index of the pads of a group\<close>

text \<open>
  Claim C2. Every record is stored under the key made of its own id, so the record of
  the owning group \<open>g\<close> has \<open>g_id g\<close> equal to the pad's \<^verbatim>\<open>group\<close>. After a successful
  creation in an existing group, the group record holds the id of the new pad in its
  \<^verbatim>\<open>pads\<close>; after a successful deletion of a pad of an existing group, the pad record is
  gone and the group record no longer holds the pad's id in its \<^verbatim>\<open>pads\<close>.
\<close>

theorem index_consistency:
  "(p_id params = None \<and> db_groups s (p_group params) = Some g \<and>
    g_id g = p_group params \<and> pad_set params cuid s = (CbOk p, s') \<longrightarrow>
      pad_id p = cuid \<and> pad_group p = p_group params \<and>
      (\<exists>g'. db_groups s' (pad_group p) = Some g' \<and> pad_id p \<in> set (g_pads g'))) \<and>
   (db_pads s key = Some q \<and> db_groups s (pad_group q) = Some h \<and>
    g_id h = pad_group q \<and> pad_del True key s = (CbOk (), t) \<longrightarrow>
      db_pads t key = None \<and>
      (\<exists>h'. db_groups t (pad_group q) = Some h' \<and> pad_id q \<notin> set (g_pads h')))"
proof (intro conjI impI)
  assume a: "p_id params = None \<and> db_groups s (p_group params) = Some g \<and>
    g_id g = p_group params \<and> pad_set params cuid s = (CbOk p, s')"
  let ?p = "with_id (assignProps params) cuid"
  have grp: "db_groups s (pad_group ?p) = Some g" "g_id g = pad_group ?p"
    using a by (simp_all add: pad_group_with_id pad_group_assignProps)
  from fn_set_group_present [OF grp]
  obtain g' where fs: "fn_set ?p s =
      (Inr ?p, s\<lparr>db_pads := (db_pads s)(pad_id ?p \<mapsto> ?p),
                 db_groups := (db_groups s)(pad_group ?p \<mapsto> g')\<rparr>)"
    and mem: "pad_id ?p \<in> set (g_pads g')" by blast
  from a have cr: "p_id params = None" and ps: "pad_set params cuid s = (CbOk p, s')"
    by simp_all
  have ok: "addSetInit params = None"
    using ps by (auto simp: pad_set_create [OF cr] split: option.splits)
  have cs: "checkSet ?p s = fn_set ?p s"
    using ps ok checkSet_cases [of ?p s] by (auto simp: pad_set_create [OF cr])
  have "pad_set params cuid s =
      (CbOk ?p, s\<lparr>db_pads := (db_pads s)(pad_id ?p \<mapsto> ?p),
                  db_groups := (db_groups s)(pad_group ?p \<mapsto> g')\<rparr>)"
    using ok cs fs by (simp add: pad_set_create [OF cr])
  with ps have "(CbOk p, s') =
      (CbOk ?p, s\<lparr>db_pads := (db_pads s)(pad_id ?p \<mapsto> ?p),
                  db_groups := (db_groups s)(pad_group ?p \<mapsto> g')\<rparr>)"
    by (rule trans [OF sym])
  then have eq: "p = ?p"
    "s' = s\<lparr>db_pads := (db_pads s)(pad_id ?p \<mapsto> ?p),
            db_groups := (db_groups s)(pad_group ?p \<mapsto> g')\<rparr>"
    by blast+
  show "pad_id p = cuid" by (simp add: eq pad_id_with_id)
  show "pad_group p = p_group params"
    by (simp add: eq pad_group_with_id pad_group_assignProps)
  show "\<exists>g'. db_groups s' (pad_group p) = Some g' \<and> pad_id p \<in> set (g_pads g')"
    using mem by (simp add: eq)
next
  assume b: "db_pads s key = Some q \<and> db_groups s (pad_group q) = Some h \<and>
    g_id h = pad_group q \<and> pad_del True key s = (CbOk (), t)"
  let ?s1 = "s\<lparr>db_pads := (db_pads s)(key := None)\<rparr>"
  let ?h = "h\<lparr>g_pads := removeAll (pad_id q) (g_pads h)\<rparr>"
  have gd: "getDel True (db_pads s) key = (Inr q, (db_pads s)(key := None))"
    using b by (simp add: getDel_def db_get_def db_remove_def)
  have "db_groups ?s1 (pad_group q) = Some h" using b by simp
  from indexGroups_del [OF this]
  have ig: "indexGroups True q ?s1 =
      (None, ?s1\<lparr>db_groups := (db_groups ?s1)(pad_group q \<mapsto> ?h)\<rparr>)"
    using b by simp
  have t: "t = ?s1\<lparr>db_groups := (db_groups ?s1)(pad_group q \<mapsto> ?h)\<rparr>"
    using b by (simp add: pad_del_def gd ig)
  show "db_pads t key = None" by (simp add: t)
  show "\<exists>h'. db_groups t (pad_group q) = Some h' \<and> pad_id q \<notin> set (g_pads h')"
    by (simp add: t)
qed

theorem index_consistency_witness:
  "p_id doc = None \<and> db_groups store1 (p_group doc) = Some g1 \<and> g_id g1 = p_group doc \<and>
   pad_set doc ''p1'' store1 = (CbOk pad1, store2) \<and>
   pad_id pad1 = ''p1'' \<and>
   (\<exists>g'. db_groups store2 (pad_group pad1) = Some g' \<and> pad_id pad1 \<in> set (g_pads g')) \<and>
   db_pads store2 ''p1'' = Some pad1 \<and>
   pad_del True ''p1'' store2 = (CbOk (), store1) \<and>
   db_pads store1 ''p1'' = None \<and>
   (\<exists>h'. db_groups store1 (pad_group pad1) = Some h' \<and> pad_id pad1 \<notin> set (g_pads h'))"
proof -
  have c: "p_id doc = None" "db_groups store1 (p_group doc) = Some g1"
    "g_id g1 = p_group doc"
    by (simp_all add: doc_def store1_def g1_def)
  have d: "db_pads store2 ''p1'' = Some pad1"
    "db_groups store2 (pad_group pad1) = Some (g1\<lparr>g_pads := [''p1'']\<rparr>)"
    "g_id (g1\<lparr>g_pads := [''p1'']\<rparr>) = pad_group pad1"
    by (simp_all add: store2_def pad1_def g1_def)
  from index_consistency [of doc store1 g1 "''p1''" pad1 store2] c pad_set_doc
  have cr: "pad_id pad1 = ''p1''"
    "\<exists>g'. db_groups store2 (pad_group pad1) = Some g' \<and> pad_id pad1 \<in> set (g_pads g')"
    by blast+
  from index_consistency [of _ store2 _ _ _ _ "''p1''" pad1
      "g1\<lparr>g_pads := [''p1'']\<rparr>" store1] d pad_del_p1
  have dl: "db_pads store1 ''p1'' = None"
    "\<exists>h'. db_groups store1 (pad_group pad1) = Some h' \<and> pad_id pad1 \<notin> set (g_pads h')"
    by blast+
  from c pad_set_doc cr d(1) pad_del_p1 dl show ?thesis
    by (intro conjI)
qed

subsection \<open>Creation with users that do not exist\<close>

text \<open>
  Claim C6. A creation (no \<^verbatim>\<open>_id\<close>, valid required fields) with \<^verbatim>\<open>visibility\<close> equal to
  \<^verbatim>\<open>restricted\<close> and a \<^verbatim>\<open>users\<close> array holding a login that has no user record calls back
  with the error \<^verbatim>\<open>some users not found\<close> and leaves the store as it was: no pad record
  is written and no group record, so no \<^verbatim>\<open>pads\<close> list, has changed.
\<close>

theorem create_users_missing:
  assumes "addSetInit params = None"
    and "p_id params = None"
    and "p_visibility params = JStr ''restricted''"
    and "p_users params = JArr us"
    and "JStr l \<in> set us"
    and "db_users s l = None"
  shows "pad_set params cuid s = (CbErr (Error ''some users not found''), s)"
proof -
  have "l \<in> set (pad_users (with_id (assignProps params) cuid))"
    using assms(3,4,5)
    by (simp add: pad_users_with_id pad_users_assignProps_restricted set_filter_isString)
  from checkSet_user_absent [OF this assms(6)] show ?thesis
    using assms(1) by (simp add: pad_set_create [OF assms(2)])
qed

theorem create_users_missing_witness:
  "addSetInit doc2 = None \<and> p_id doc2 = None \<and>
   p_visibility doc2 = JStr ''restricted'' \<and> p_users doc2 = JArr [JStr ''nouser''] \<and>
   db_users store1 ''nouser'' = None \<and>
   pad_set doc2 ''p2'' store1 = (CbErr (Error ''some users not found''), store1) \<and>
   db_pads store1 ''p2'' = None \<and> db_groups store1 ''g1'' = Some g1"
proof -
  have h: "addSetInit doc2 = None" "p_id doc2 = None"
    "p_visibility doc2 = JStr ''restricted''" "p_users doc2 = JArr [JStr ''nouser'']"
    "JStr ''nouser'' \<in> set [JStr ''nouser'']" "db_users store1 ''nouser'' = None"
    by (simp_all add: addSetInit_def doc2_def store1_def)
  have "db_pads store1 ''p2'' = None" "db_groups store1 ''g1'' = Some g1"
    by (simp_all add: store1_def)
  with create_users_missing [OF h, of "''p2''"] h show ?thesis by simp
qed

subsection \<open>Update\<close>




section \<open>Properties of the credential verification\<close>

lemma user_get_eq:
  "user_get login s =
     (case db_users s login of None \<Rightarrow> Inl (NotFound login) | Some u \<Rightarrow> Inr u)"
  by (simp add: user_get_def getDel_def db_get_def split: option.split)

lemma isPasswordValid_hashed:
  assumes "u_password u = Some pw" and "hp (salt pw) password = (None, Some r)"
  shows "isPasswordValid hp u password = ([Call None (Some (hash r = hash pw))], None)"
  using assms by (simp add: isPasswordValid_def)

text \<open>
  Claim C7, as the code has it. When the hashing itself succeeds, \<^verbatim>\<open>localFn\<close> has three
  disjoint cases, each with exactly one call of the callback and no exception. An
  unknown login: the NotFound of \<^verbatim>\<open>user.get\<close>, whatever the password. A known login and
  a password whose salted hash differs from the stored hash: the error
  \<^verbatim>\<open>password is not correct\<close> (with \<^verbatim>\<open>false\<close>), which is not the NotFound failure. A
  known login and a password whose salted hash is the stored hash: \<^verbatim>\<open>null\<close> and the
  user record \<^verbatim>\<open>u\<close> exactly as \<^verbatim>\<open>user.get\<close> returned it, its \<^verbatim>\<open>password\<close> field (salt and
  hash) included; only the login route of the API removes that field, by \<^verbatim>\<open>ld.omit\<close>.
\<close>

theorem localFn_cases:
  "(db_users s login = None \<longrightarrow>
      localFn hp login password s = ([Call (Some (NotFound login)) None], None)) \<and>
   (db_users s login = Some u \<and> u_password u = Some pw \<and>
    hp (salt pw) password = (None, Some r) \<and> hash r \<noteq> hash pw \<longrightarrow>
      localFn hp login password s =
        ([Call (Some (Error ''password is not correct'')) (Some AFalse)], None) \<and>
      Error ''password is not correct'' \<noteq> NotFound login) \<and>
   (db_users s login = Some u \<and> u_password u = Some pw \<and>
    hp (salt pw) password = (None, Some r) \<and> hash r = hash pw \<longrightarrow>
      localFn hp login password s = ([Call None (Some (AUser u))], None))"
proof (intro conjI impI)
  assume "db_users s login = None"
  then show "localFn hp login password s = ([Call (Some (NotFound login)) None], None)"
    by (simp add: localFn_def user_get_eq)
next
  assume a: "db_users s login = Some u \<and> u_password u = Some pw \<and>
    hp (salt pw) password = (None, Some r) \<and> hash r \<noteq> hash pw"
  then have "isPasswordValid hp u password = ([Call None (Some False)], None)"
    by (simp add: isPasswordValid_hashed)
  with a show "localFn hp login password s =
        ([Call (Some (Error ''password is not correct'')) (Some AFalse)], None)"
    by (simp add: localFn_def user_get_eq localFn_cb_def)
  show "Error ''password is not correct'' \<noteq> NotFound login" by simp
next
  assume a: "db_users s login = Some u \<and> u_password u = Some pw \<and>
    hp (salt pw) password = (None, Some r) \<and> hash r = hash pw"
  then have "isPasswordValid hp u password = ([Call None (Some True)], None)"
    by (simp add: isPasswordValid_hashed)
  with a show "localFn hp login password s = ([Call None (Some (AUser u))], None)"
    by (simp add: localFn_def user_get_eq localFn_cb_def)
qed

theorem localFn_cases_witness:
  "db_users store1 ''bob'' = None \<and>
   localFn toy_hash ''bob'' ''secret'' store1 = ([Call (Some (NotFound ''bob'')) None], None) \<and>
   db_users store1 ''alice'' = Some alice \<and>
   toy_hash ''na'' ''guess'' = (None, Some \<lparr> salt = ''na'', hash = ''naguess'' \<rparr>) \<and>
   localFn toy_hash ''alice'' ''guess'' store1 =
     ([Call (Some (Error ''password is not correct'')) (Some AFalse)], None) \<and>
   toy_hash ''na'' ''secret'' = (None, Some \<lparr> salt = ''na'', hash = ''nasecret'' \<rparr>) \<and>
   localFn toy_hash ''alice'' ''secret'' store1 = ([Call None (Some (AUser alice))], None)"
proof -
  have u: "db_users store1 ''bob'' = None" "db_users store1 ''alice'' = Some alice"
    "u_password alice = Some \<lparr> salt = ''na'', hash = ''nasecret'' \<rparr>"
    by (simp_all add: store1_def alice_def)
  have t: "toy_hash ''na'' ''guess'' = (None, Some \<lparr> salt = ''na'', hash = ''naguess'' \<rparr>)"
    "toy_hash ''na'' ''secret'' = (None, Some \<lparr> salt = ''na'', hash = ''nasecret'' \<rparr>)"
    by (simp_all add: toy_hash_def)
  from localFn_cases [of store1 "''bob''" toy_hash "''secret''"] u(1)
  have a: "localFn toy_hash ''bob'' ''secret'' store1 =
      ([Call (Some (NotFound ''bob'')) None], None)"
    by blast
  from localFn_cases [of store1 "''alice''" toy_hash "''guess''" alice
      "\<lparr> salt = ''na'', hash = ''nasecret'' \<rparr>" "\<lparr> salt = ''na'', hash = ''naguess'' \<rparr>"]
    u(2,3) t(1)
  have b: "localFn toy_hash ''alice'' ''guess'' store1 =
      ([Call (Some (Error ''password is not correct'')) (Some AFalse)], None)"
    by simp
  from localFn_cases [of store1 "''alice''" toy_hash "''secret''" alice
      "\<lparr> salt = ''na'', hash = ''nasecret'' \<rparr>" "\<lparr> salt = ''na'', hash = ''nasecret'' \<rparr>"]
    u(2,3) t(2)
  have c: "localFn toy_hash ''alice'' ''secret'' store1 = ([Call None (Some (AUser alice))], None)"
    by simp
  from u(1) a u(2) t(1) b t(2) c show ?thesis by (intro conjI)
qed

text \<open>The record handed to the callback on success carries the stored salt and hash.\<close>

theorem localFn_password_present:
  "localFn toy_hash ''alice'' ''secret'' store1 = ([Call None (Some (AUser alice))], None) \<and>
   u_password alice = Some \<lparr> salt = ''na'', hash = ''nasecret'' \<rparr> \<and>
   u_password alice \<noteq> None"
  by (simp add: localFn_def user_get_eq store1_def alice_def toy_hash_def
      isPasswordValid_def localFn_cb_def)

text \<open>
  Claim C10, at the failing hash. When \<^verbatim>\<open>hashPassword\<close> calls back with an error \<^verbatim>\<open>e\<close>,
  \<^verbatim>\<open>isPasswordValid\<close> passes \<^verbatim>\<open>e\<close> to its callback and then, for want of a \<^verbatim>\<open>return\<close>,
  goes on to the comparison: with an absent result the read of \<^verbatim>\<open>res.hash\<close> throws a
  TypeError after the call, with a result present the callback is called a second time
  with the outcome of the comparison.
\<close>

theorem isPasswordValid_hash_error:
  assumes "u_password u = Some pw" and "hp (salt pw) password = (Some e, res)"
  shows "isPasswordValid hp u password =
    (case res of
       None \<Rightarrow>
         ([Call (Some e) None], Some (TypeError ''Cannot read property hash of undefined''))
     | Some r \<Rightarrow> ([Call (Some e) None, Call None (Some (hash r = hash pw))], None))"
  using assms by (simp add: isPasswordValid_def Let_def split: option.split)

theorem isPasswordValid_hash_error_witness:
  "u_password alice = Some \<lparr> salt = ''na'', hash = ''nasecret'' \<rparr> \<and>
   failing_hash ''na'' ''secret'' = (Some (Error ''hash failure''), None) \<and>
   isPasswordValid failing_hash alice ''secret'' =
     ([Call (Some (Error ''hash failure'')) None],
      Some (TypeError ''Cannot read property hash of undefined''))"
proof -
  have h: "u_password alice = Some \<lparr> salt = ''na'', hash = ''nasecret'' \<rparr>"
    "failing_hash (salt \<lparr> salt = ''na'', hash = ''nasecret'' \<rparr>) ''secret''
       = (Some (Error ''hash failure''), None)"
    by (simp_all add: alice_def failing_hash_def)
  from isPasswordValid_hash_error [of alice "\<lparr> salt = ''na'', hash = ''nasecret'' \<rparr>"
      failing_hash "''secret''" "Error ''hash failure''" None] h
  show ?thesis by simp
qed

section \<open>Properties of the invitation tokens\<close>

lemma genToken_ok:
  "\<not> isUndefined val \<Longrightarrow>
   genToken val d now c m =
     Inr (c, m\<lparr> tokens := (tokens m)(c \<mapsto> val),
               ends := (ends m)(c \<mapsto> now + duration d * 60 * 1000) \<rparr>)"
  by (simp add: genToken_def Let_def)

lemma genToken_throws:
  "isUndefined val \<Longrightarrow>
   genToken val d now c m = Inl (TypeError ''BACKEND.ERROR.TYPE.PARAMS_REQUIRED'')"
  by (simp add: genToken_def)

lemma genToken_Inr:
  assumes "genToken val d now c m = Inr (t, m')"
  shows "t = c \<and> tokens m' c = Some val \<and> ends m' c = Some (now + duration d * 60 * 1000)"
proof (cases "isUndefined val")
  case True
  with assms show ?thesis by (simp add: genToken_throws)
next
  case False
  with assms show ?thesis by (auto simp: genToken_ok)
qed

text \<open>The tokens known to the module are the tokens the calls so far have returned.\<close>

lemma dom_issues:
  "dom (tokens (issues cs m)) = dom (tokens m) \<union> set (returned cs m) \<and>
   dom (ends (issues cs m)) = dom (ends m) \<union> set (returned cs m)"
proof (induction cs arbitrary: m)
  case Nil
  show ?case by simp
next
  case (Cons a cs)
  obtain val d now c where a: "a = (val, d, now, c)" by (cases a)
  show ?case
  proof (cases "isUndefined val")
    case True
    then show ?thesis using Cons.IH [of m] by (simp add: a genToken_throws)
  next
    case False
    let ?m = "m\<lparr> tokens := (tokens m)(c \<mapsto> val),
               ends := (ends m)(c \<mapsto> now + duration d * 60 * 1000) \<rparr>"
    have "dom (tokens ?m) = insert c (dom (tokens m))"
      and "dom (ends ?m) = insert c (dom (ends m))" by simp_all
    with Cons.IH [of ?m] False show ?thesis
      by (simp add: a genToken_ok del: fun_upd_apply)
  qed
qed

lemma isValidToken_unknown:
  "tokens m t = None \<Longrightarrow> ends m t = None \<Longrightarrow>
   isValidToken m t now = (if t \<in> set Object_prototype then JBool False else JUndefined)"
  by (simp add: isValidToken_def js_and_def tokens_get_def before_end_def)

lemma isValidToken_truthy:
  "tokens m t = Some v \<Longrightarrow> truthy v \<Longrightarrow> ends m t = Some e \<Longrightarrow>
   isValidToken m t now = JBool (now < e)"
  by (simp add: isValidToken_def js_and_def tokens_get_def before_end_def)

lemma isValidToken_own:
  "tokens m t = Some v \<Longrightarrow>
   isValidToken m t now = js_and v (JBool (before_end m t now))"
  by (simp add: isValidToken_def tokens_get_def)

lemma isValidToken_True:
  assumes "isValidToken m t now = JBool True"
  shows "\<exists>e. ends m t = Some e \<and> now < e"
proof (cases "ends m t")
  case None
  then have "before_end m t now = False" by (simp add: before_end_def)
  with assms have r: "js_and (tokens_get m t) (JBool False) = JBool True"
    by (simp add: isValidToken_def)
  show ?thesis
  proof (cases "truthy (tokens_get m t)")
    case True
    with r show ?thesis by (simp add: js_and_def)
  next
    case False
    with r have "tokens_get m t = JBool True" by (simp add: js_and_def)
    with False show ?thesis by simp
  qed
next
  case (Some e)
  then have b: "before_end m t now = (now < e)" by (simp add: before_end_def)
  have "now < e"
  proof (cases "truthy (tokens_get m t)")
    case True
    with assms b show ?thesis by (simp add: isValidToken_def js_and_def)
  next
    case False
    with assms have "tokens_get m t = JBool True" by (simp add: isValidToken_def js_and_def)
    with False show ?thesis by simp
  qed
  with Some show ?thesis by simp
qed

text \<open>
  Claim C3, as the code has it. In the state any history of calls to \<^verbatim>\<open>genToken\<close> leaves:
  for a string no call has returned, \<^verbatim>\<open>isValidToken\<close> returns a falsy value, namely
  \<^verbatim>\<open>false\<close> when the string is one of the names inherited from \<^verbatim>\<open>Object.prototype\<close>
  (\<^verbatim>\<open>constructor\<close>, \<^verbatim>\<open>toString\<close>, \<^verbatim>\<open>__proto__\<close>, ...) and \<^verbatim>\<open>undefined\<close> for every other
  string; it returns \<^verbatim>\<open>true\<close> only for a token that a call has returned and whose stored
  expiry is strictly later than the current time; for a token whose stored payload is
  truthy it returns the boolean \<open>now < e\<close>, with \<open>e\<close> the stored expiry, so \<^verbatim>\<open>true\<close> before
  the expiry and \<^verbatim>\<open>false\<close> from the expiry on; and the expiry a call stores for the token
  it returns is its own time plus the duration in milliseconds. Unknown and expired
  tokens both read as falsy, but an unknown token mostly as \<^verbatim>\<open>undefined\<close> and an expired
  one as \<^verbatim>\<open>false\<close>. Tokens issued with a falsy payload are left aside here.
\<close>

theorem isValidToken_history:
  "(t \<notin> set (returned cs mail_init) \<longrightarrow>
      isValidToken (issues cs mail_init) t now =
        (if t \<in> set Object_prototype then JBool False else JUndefined) \<and>
      \<not> truthy (isValidToken (issues cs mail_init) t now)) \<and>
   (isValidToken (issues cs mail_init) t now = JBool True \<longrightarrow>
      t \<in> set (returned cs mail_init) \<and>
      (\<exists>e. ends (issues cs mail_init) t = Some e \<and> now < e)) \<and>
   (\<forall>v e. tokens (issues cs mail_init) t = Some v \<and> truthy v \<and>
          ends (issues cs mail_init) t = Some e \<longrightarrow>
      t \<in> set (returned cs mail_init) \<and>
      isValidToken (issues cs mail_init) t now = JBool (now < e)) \<and>
   (\<forall>val d now0 c m m'. genToken val d now0 c m = Inr (t, m') \<and> truthy val \<longrightarrow>
      isValidToken m' t now = JBool (now < now0 + duration d * 60 * 1000))"
proof -
  have d: "dom (tokens (issues cs mail_init)) = set (returned cs mail_init)"
    and de: "dom (ends (issues cs mail_init)) = set (returned cs mail_init)"
    using dom_issues [of cs mail_init] by (simp_all add: mail_init_def)
  show ?thesis
  proof (intro conjI impI allI)
    assume "t \<notin> set (returned cs mail_init)"
    then have "tokens (issues cs mail_init) t = None" "ends (issues cs mail_init) t = None"
      using d de by blast+
    then show u: "isValidToken (issues cs mail_init) t now =
        (if t \<in> set Object_prototype then JBool False else JUndefined)"
      by (rule isValidToken_unknown)
    show "\<not> truthy (isValidToken (issues cs mail_init) t now)"
      by (simp add: u)
  next
    assume "isValidToken (issues cs mail_init) t now = JBool True"
    from isValidToken_True [OF this]
    show "\<exists>e. ends (issues cs mail_init) t = Some e \<and> now < e"
      and "t \<in> set (returned cs mail_init)"
      using de by blast+
  next
    fix v e
    assume a: "tokens (issues cs mail_init) t = Some v \<and> truthy v \<and>
          ends (issues cs mail_init) t = Some e"
    then show "t \<in> set (returned cs mail_init)" using d by blast
    from a show "isValidToken (issues cs mail_init) t now = JBool (now < e)"
      by (simp add: isValidToken_truthy)
  next
    fix val d now0 c m m'
    assume a: "genToken val d now0 c m = Inr (t, m') \<and> truthy val"
    then have "t = c \<and> tokens m' c = Some val \<and>
        ends m' c = Some (now0 + duration d * 60 * 1000)"
      using genToken_Inr [of val d now0 c m t m'] by blast
    with a show "isValidToken m' t now = JBool (now < now0 + duration d * 60 * 1000)"
      by (simp add: isValidToken_truthy)
  qed
qed

lemma issues_one:
  "\<not> isUndefined val \<Longrightarrow>
   issues [(val, d, now, c)] mail_init =
     \<lparr> tokens = [c \<mapsto> val], ends = [c \<mapsto> now + duration d * 60 * 1000] \<rparr> \<and>
   returned [(val, d, now, c)] mail_init = [c]"
  by (simp add: genToken_ok mail_init_def)

lemma constructor_inherited: "''constructor'' \<in> set Object_prototype"
  by (simp add: Object_prototype_def)

lemma t0_not_inherited: "''t0'' \<notin> set Object_prototype"
  by (simp add: Object_prototype_def)

theorem isValidToken_history_witness:
  "''t0'' \<notin> set (returned [(JStr ''x'', None, 0, ''t1'')] mail_init) \<and>
   isValidToken (issues [(JStr ''x'', None, 0, ''t1'')] mail_init) ''t0'' 5 = JUndefined \<and>
   ''constructor'' \<notin> set (returned [(JStr ''x'', None, 0, ''t1'')] mail_init) \<and>
   isValidToken (issues [(JStr ''x'', None, 0, ''t1'')] mail_init) ''constructor'' 5
     = JBool False \<and>
   ''t1'' \<in> set (returned [(JStr ''x'', None, 0, ''t1'')] mail_init) \<and>
   tokens (issues [(JStr ''x'', None, 0, ''t1'')] mail_init) ''t1'' = Some (JStr ''x'') \<and>
   ends (issues [(JStr ''x'', None, 0, ''t1'')] mail_init) ''t1'' = Some 3600000 \<and>
   isValidToken (issues [(JStr ''x'', None, 0, ''t1'')] mail_init) ''t1'' 3599999
     = JBool True \<and>
   isValidToken (issues [(JStr ''x'', None, 0, ''t1'')] mail_init) ''t1'' 3600000
     = JBool False \<and>
   genToken (JStr ''x'') None 0 ''t1'' mail_init =
     Inr (''t1'', \<lparr> tokens = [''t1'' \<mapsto> JStr ''x''], ends = [''t1'' \<mapsto> 3600000] \<rparr>) \<and>
   isValidToken \<lparr> tokens = [''t1'' \<mapsto> JStr ''x''], ends = [''t1'' \<mapsto> 3600000] \<rparr> ''t1'' 5
     = JBool True"
proof -
  let ?cs = "[(JStr ''x'', None, 0, ''t1'')]"
  let ?m1 = "\<lparr> tokens = [''t1'' \<mapsto> JStr ''x''], ends = [''t1'' \<mapsto> 3600000] \<rparr>"
  have i: "issues ?cs mail_init = \<lparr> tokens = [''t1'' \<mapsto> JStr ''x''], ends = [''t1'' \<mapsto> 3600000] \<rparr>"
    "returned ?cs mail_init = [''t1'']"
    using issues_one [of "JStr ''x''" None 0 "''t1''"]
    by (simp_all add: duration_def del: issues.simps returned.simps)
  have k: "''t0'' \<notin> set (returned ?cs mail_init)" "''t1'' \<in> set (returned ?cs mail_init)"
    "tokens (issues ?cs mail_init) ''t1'' = Some (JStr ''x'')"
    "ends (issues ?cs mail_init) ''t1'' = Some 3600000" "truthy (JStr ''x'')"
    "''constructor'' \<notin> set (returned ?cs mail_init)"
    by (simp_all add: i del: issues.simps returned.simps)
  from isValidToken_history [of "''t0''" ?cs 5] k(1)
  have "isValidToken (issues ?cs mail_init) ''t0'' 5 =
      (if ''t0'' \<in> set Object_prototype then JBool False else JUndefined)"
    by blast
  with t0_not_inherited
  have a: "isValidToken (issues ?cs mail_init) ''t0'' 5 = JUndefined" by simp
  from isValidToken_history [of "''constructor''" ?cs 5] k(6)
  have "isValidToken (issues ?cs mail_init) ''constructor'' 5 =
      (if ''constructor'' \<in> set Object_prototype then JBool False else JUndefined)"
    by blast
  with constructor_inherited
  have a': "isValidToken (issues ?cs mail_init) ''constructor'' 5 = JBool False" by simp
  from isValidToken_history [of "''t1''" ?cs 3599999] k(3,4,5)
  have b: "isValidToken (issues ?cs mail_init) ''t1'' 3599999 = JBool (3599999 < (3600000::int))"
    by blast
  from isValidToken_history [of "''t1''" ?cs 3600000] k(3,4,5)
  have c: "isValidToken (issues ?cs mail_init) ''t1'' 3600000 = JBool (3600000 < (3600000::int))"
    by blast
  from b c have bc: "isValidToken (issues ?cs mail_init) ''t1'' 3599999 = JBool True"
    "isValidToken (issues ?cs mail_init) ''t1'' 3600000 = JBool False"
    by simp_all
  have g: "genToken (JStr ''x'') None 0 ''t1'' mail_init = Inr (''t1'', ?m1)"
    by (simp add: genToken_ok mail_init_def duration_def)
  from isValidToken_history [of "''t1''" ?cs 5] g k(5)
  have "isValidToken ?m1 ''t1'' 5 = JBool (5 < 0 + duration None * 60 * 1000)"
    by blast
  then have r: "isValidToken ?m1 ''t1'' 5 = JBool True"
    by (simp add: duration_def)
  from k(1) a k(6) a' k(2,3,4) bc g r show ?thesis by (intro conjI)
qed

text \<open>
  The string \<^verbatim>\<open>t0\<close>, never issued, reads as \<^verbatim>\<open>undefined\<close> and an expired token as \<^verbatim>\<open>false\<close>;
  the token \<^verbatim>\<open>t2\<close>, issued with the payload \<^verbatim>\<open>null\<close> at time 0 and expiring at 3600000,
  reads as \<^verbatim>\<open>null\<close> at time 0.
\<close>

theorem isValidToken_not_boolean:
  "isValidToken mail_init ''t0'' 0 = JUndefined \<and>
   isValidToken mail_init ''t0'' 0 \<noteq> JBool False \<and>
   isValidToken (issues [(JStr ''x'', None, 0, ''t1'')] mail_init) ''t1'' 3600000
     = JBool False \<and>
   returned [(JNull, None, 0, ''t2'')] mail_init = [''t2''] \<and>
   ends (issues [(JNull, None, 0, ''t2'')] mail_init) ''t2'' = Some 3600000 \<and>
   isValidToken (issues [(JNull, None, 0, ''t2'')] mail_init) ''t2'' 0 = JNull \<and>
   isValidToken (issues [(JNull, None, 0, ''t2'')] mail_init) ''t2'' 0 \<noteq> JBool True"
  by (simp add: issues_one isValidToken_def js_and_def tokens_get_def before_end_def
      duration_def t0_not_inherited del: issues.simps returned.simps)
     (simp add: mail_init_def t0_not_inherited)

text \<open>
  Claim C9, as the code has it. For every payload that is defined but falsy (\<^verbatim>\<open>null\<close>,
  \<^verbatim>\<open>false\<close>, \<^verbatim>\<open>0\<close>, the empty string) \<^verbatim>\<open>genToken\<close> accepts the payload and returns the
  token; \<^verbatim>\<open>isValidToken\<close> on that token, at the very time of the issue, returns the
  payload itself, a falsy value (the boolean \<^verbatim>\<open>false\<close> only for the payload \<^verbatim>\<open>false\<close>),
  although, the effective duration being positive, the expiry stored for the token
  has not been reached.
\<close>

theorem falsy_payload:
  assumes "\<not> isUndefined val" and "\<not> truthy val" and "0 < duration d"
  shows "\<exists>m'. genToken val d now c m = Inr (c, m') \<and>
           isValidToken m' c now = val \<and>
           \<not> truthy (isValidToken m' c now) \<and>
           ends m' c = Some (now + duration d * 60 * 1000) \<and>
           now < now + duration d * 60 * 1000"
  using assms
  by (simp add: genToken_ok isValidToken_def js_and_def tokens_get_def before_end_def)

theorem falsy_payload_witness:
  "\<not> isUndefined (JNum 0) \<and> \<not> truthy (JNum 0) \<and> 0 < duration (Some 30) \<and>
   (\<exists>m'. genToken (JNum 0) (Some 30) 1000 ''t3'' mail_init = Inr (''t3'', m') \<and>
      isValidToken m' ''t3'' 1000 = JNum 0 \<and>
      ends m' ''t3'' = Some 1801000)"
proof -
  have h: "\<not> isUndefined (JNum 0)" "\<not> truthy (JNum 0)" "0 < duration (Some 30)"
    by (simp_all add: duration_def)
  have "1000 + duration (Some 30) * 60 * 1000 = 1801000"
    by (simp add: duration_def)
  with falsy_payload [OF h, of 1000 "''t3''" mail_init] h show ?thesis
    by auto
qed

text \<open>
  With the payload \<^verbatim>\<open>null\<close> the value returned is \<^verbatim>\<open>null\<close>, not the boolean \<^verbatim>\<open>false\<close>.
  With a configured duration of \<open>- 1\<close> minute the expiry stored at time 0 is already
  reached at time 0.
\<close>

theorem falsy_payload_not_false:
  "genToken JNull None 0 ''t2'' mail_init =
     Inr (''t2'', \<lparr> tokens = [''t2'' \<mapsto> JNull], ends = [''t2'' \<mapsto> 3600000] \<rparr>) \<and>
   isValidToken \<lparr> tokens = [''t2'' \<mapsto> JNull], ends = [''t2'' \<mapsto> 3600000] \<rparr> ''t2'' 0 = JNull \<and>
   isValidToken \<lparr> tokens = [''t2'' \<mapsto> JNull], ends = [''t2'' \<mapsto> 3600000] \<rparr> ''t2'' 0
     \<noteq> JBool False \<and>
   genToken (JBool False) (Some (- 1)) 0 ''t4'' mail_init =
     Inr (''t4'', \<lparr> tokens = [''t4'' \<mapsto> JBool False], ends = [''t4'' \<mapsto> - 60000] \<rparr>) \<and>
   \<not> (0::int) < - 60000"
  by (simp add: genToken_ok mail_init_def duration_def isValidToken_def js_and_def
      tokens_get_def before_end_def)

end
